theory Spec2Isabelle
  imports Main "HOL-Library.Word"
begin

unbundle bit_operations_syntax

section \<open>Kernelcache kext listing (pkg/kernelcache/kext.go)\<close>

text \<open>
  A shallow embedding of \<^verbatim>\<open>pkg/kernelcache/kext.go\<close>. Go's \<^verbatim>\<open>uint64\<close> is
  \<open>64 word\<close>, \<^verbatim>\<open>byte\<close> is \<open>8 word\<close>, a slice is a list, a \<^verbatim>\<open>string\<close> is a
  \<open>string\<close>. A function returning \<^verbatim>\<open>(T, error)\<close> returns \<open>error + T\<close>, with
  \<open>Inl\<close> the error.
\<close>

type_synonym u64 = "64 word"
type_synonym u32 = "32 word"
type_synonym byte = "8 word"

subsection \<open>Tagged pointers\<close>

text \<open>\<^verbatim>\<open>const tagPtrMask = 0xffff000000000000\<close>\<close>

definition tagPtrMask :: u64 where
  "tagPtrMask = 0xffff000000000000"

text \<open>\<^verbatim>\<open>func getTag(ptr uint64) uint64 { return ptr >> 48 }\<close>\<close>

definition getTag :: "u64 \<Rightarrow> u64" where
  "getTag ptr = drop_bit 48 ptr"

text \<open>
  \<^verbatim>\<open>func unTag(ptr uint64) uint64 { return (ptr & ((1 << 48) - 1)) | (0xffff << 48) }\<close>
\<close>

definition unTag :: "u64 \<Rightarrow> u64" where
  "unTag ptr = (ptr AND (push_bit 48 1 - 1)) OR push_bit 48 0xffff"

subsection \<open>Errors, panics and printed output\<close>

text \<open>
  The error values the code can hand back. \<open>Errorf\<close> is an error built by
  \<^verbatim>\<open>fmt.Errorf\<close> from a constant message; \<open>Errorf_KmodInfoT off err\<close> is
  \<^verbatim>\<open>fmt.Errorf("failed to read KmodInfoT at %#x: %v", off, err)\<close>; \<open>EOF\<close> and
  \<open>ErrUnexpectedEOF\<close> are the two errors of \<^verbatim>\<open>io.ReadFull\<close> that
  \<^verbatim>\<open>binary.Read\<close> passes on; \<open>Foreign\<close> is any error value produced by an
  external collaborator (the Mach-O accessor, the property-list decoder).
\<close>

datatype error =
    Errorf string
  | Errorf_KmodInfoT u64 error
  | EOF
  | ErrUnexpectedEOF
  | Foreign string

text \<open>
  The message of lines 106 and 145, which the specification calls SectionMissing.
\<close>

definition SectionMissing :: error where
  "SectionMissing = Errorf ''section __PRELINK_INFO.__kmod_start not found''"

text \<open>
  Go checks every slice index at run time: \<^verbatim>\<open>s[i]\<close> with \<^verbatim>\<open>i >= len(s)\<close> panics
  with "index out of range [i] with length len(s)". A call either returns its
  \<^verbatim>\<open>error\<close> result (\<^verbatim>\<open>nil\<close> is \<open>None\<close>) or panics.
\<close>

datatype panic = IndexOutOfRange nat nat

datatype outcome = Returned "error option" | Panicked panic

text \<open>
  \<^verbatim>\<open>KextList\<close> writes its listing to standard output. Each element is one print
  call with the values it formats: \<open>Println_FOUND n\<close> is
  \<^verbatim>\<open>fmt.Println("FOUND:", n)\<close>, and \<open>Printf_kext a id v\<close> is
  \<^verbatim>\<open>fmt.Printf("%#x: %s (%s)\n", a, id, v)\<close>, one catalog entry
  (load address, bundle identifier, version).
\<close>

datatype print = Println_FOUND nat | Printf_kext u64 string string

subsection \<open>The external collaborators\<close>

text \<open>
  \<^verbatim>\<open>macho.Section\<close>: the \<^verbatim>\<open>Size\<close> field of the section header and the result of
  the \<^verbatim>\<open>Data()\<close> method.
\<close>

record macho_Section =
  Size :: u64
  Data :: "error + byte list"

text \<open>
  \<^verbatim>\<open>macho.File\<close>, through the methods the code calls. \<open>Section seg name\<close> is
  \<open>None\<close> for Go's \<^verbatim>\<open>nil\<close>. \<open>ReadAt n off\<close> is \<^verbatim>\<open>m.ReadAt(p, off)\<close> for a
  buffer \<^verbatim>\<open>p\<close> of length \<open>n\<close>: an error, or the bytes written to the front
  of \<^verbatim>\<open>p\<close>.
\<close>

record macho_File =
  Section :: "string \<Rightarrow> string \<Rightarrow> macho_Section option"
  GetOffset :: "u64 \<Rightarrow> error + u64"
  ReadAt :: "nat \<Rightarrow> u64 \<Rightarrow> error + byte list"
  GetCString :: "u64 \<Rightarrow> error + string"
  GetBaseAddress :: u64

subsection \<open>Property-list bundles\<close>

text \<open>
  \<^verbatim>\<open>CFBundle\<close>, with the four fields \<^verbatim>\<open>KextList\<close> reads (the Go struct has
  thirty more, all filled by the property-list decoder and read by nothing in this file).
\<close>

record CFBundle =
  ID :: string
  Version :: string
  OSKernelResource :: bool
  ModuleIndex :: u64

record PrelinkInfo =
  PrelinkInfoDictionary :: "CFBundle list"

text \<open>
  The functions of other packages: \<^verbatim>\<open>macho.Open\<close>, the property-list decoder
  (\<^verbatim>\<open>plist.NewDecoder(r).Decode(&prelink)\<close>, on the bytes of \<^verbatim>\<open>r\<close>), and
  \<^verbatim>\<open>fixupchains.DyldChainedPtr64KernelCacheRebase{Pointer: p}.Target()\<close>.
\<close>

record Extern =
  macho_Open :: "string \<Rightarrow> error + macho_File"
  plist_Decode :: "byte list \<Rightarrow> error + PrelinkInfo"
  Rebase_Target :: "u64 \<Rightarrow> u64"

subsection \<open>encoding/binary\<close>

text \<open>
  \<^verbatim>\<open>binary.LittleEndian.Uint64(b)\<close> and \<^verbatim>\<open>Uint32(b)\<close>:
  \<^verbatim>\<open>uint64(b[0]) | uint64(b[1])<<8 | ... | uint64(b[7])<<56\<close>. Every caller
  below passes at least 8 (4) bytes.
\<close>

definition LittleEndian_Uint64 :: "byte list \<Rightarrow> u64" where
  "LittleEndian_Uint64 b =
     ucast (b ! 0) OR push_bit 8 (ucast (b ! 1)) OR push_bit 16 (ucast (b ! 2))
     OR push_bit 24 (ucast (b ! 3)) OR push_bit 32 (ucast (b ! 4))
     OR push_bit 40 (ucast (b ! 5)) OR push_bit 48 (ucast (b ! 6))
     OR push_bit 56 (ucast (b ! 7))"

definition LittleEndian_Uint32 :: "byte list \<Rightarrow> u32" where
  "LittleEndian_Uint32 b =
     ucast (b ! 0) OR push_bit 8 (ucast (b ! 1)) OR push_bit 16 (ucast (b ! 2))
     OR push_bit 24 (ucast (b ! 3))"

text \<open>
  \<^verbatim>\<open>binary.Read(bytes.NewReader(data), binary.LittleEndian, &ptrs)\<close> for
  \<^verbatim>\<open>ptrs\<close> a \<^verbatim>\<open>[]uint64\<close> of length \<open>n\<close>: \<^verbatim>\<open>io.ReadFull\<close> takes
  \<open>8 * n\<close> bytes from the front of \<open>data\<close> (\<^verbatim>\<open>io.EOF\<close> when bytes are wanted and
  there are none, \<^verbatim>\<open>io.ErrUnexpectedEOF\<close> when there are too few), and element
  \<open>i\<close> is decoded from bytes \<open>8 * i\<close> to \<open>8 * i + 7\<close>. Bytes after the first
  \<open>8 * n\<close> are not looked at.
\<close>

definition binary_Read_uint64s :: "byte list \<Rightarrow> nat \<Rightarrow> error + u64 list" where
  "binary_Read_uint64s data n =
     (if 8 * n = 0 then Inr []
      else if data = [] then Inl EOF
      else if length data < 8 * n then Inl ErrUnexpectedEOF
      else Inr (map (\<lambda>i. LittleEndian_Uint64 (take 8 (drop (8 * i) data))) [0..<n]))"

subsection \<open>The kmod\_info record\<close>

text \<open>
  \<^verbatim>\<open>KmodInfoT\<close>. \<^verbatim>\<open>int32\<close> fields are 32-bit words (read as two's complement
  by \<open>sint\<close>), \<^verbatim>\<open>[64]byte\<close> is a list of 64 bytes.
\<close>

record KmodInfoT =
  NextAddr :: u64
  InfoVersion :: u32
  ID :: u32
  Name :: "byte list"
  Version :: "byte list"
  ReferenceCount :: u32
  ReferenceListAddr :: u64
  Address :: u64
  Size :: u64
  HeaderSize :: u64
  StartAddr :: u64
  StopAddr :: u64

text \<open>\<^verbatim>\<open>binary.Size(info)\<close>: the sum of the field widths, without padding.\<close>

definition binary_Size_KmodInfoT :: nat where
  "binary_Size_KmodInfoT = 8 + 4 + 4 + 64 + 64 + 4 + 8 + 8 + 8 + 8 + 8 + 8"

text \<open>
  The decoder of \<^verbatim>\<open>encoding/binary\<close> keeps a buffer and an offset; each read
  decodes at the offset and advances it by the width read.
\<close>

definition d_uint64 :: "byte list \<Rightarrow> nat \<Rightarrow> u64 \<times> nat" where
  "d_uint64 buf offset = (LittleEndian_Uint64 (take 8 (drop offset buf)), offset + 8)"

definition d_uint32 :: "byte list \<Rightarrow> nat \<Rightarrow> u32 \<times> nat" where
  "d_uint32 buf offset = (LittleEndian_Uint32 (take 4 (drop offset buf)), offset + 4)"

definition d_bytes :: "nat \<Rightarrow> byte list \<Rightarrow> nat \<Rightarrow> byte list \<times> nat" where
  "d_bytes n buf offset = (take n (drop offset buf), offset + n)"

text \<open>The fields are decoded in declaration order, starting at offset 0.\<close>

definition d_value_KmodInfoT :: "byte list \<Rightarrow> KmodInfoT" where
  "d_value_KmodInfoT buf =
     (let (nextAddr, o1) = d_uint64 buf 0;
          (infoVersion, o2) = d_uint32 buf o1;
          (id, o3) = d_uint32 buf o2;
          (name, o4) = d_bytes 64 buf o3;
          (version, o5) = d_bytes 64 buf o4;
          (referenceCount, o6) = d_uint32 buf o5;
          (referenceListAddr, o7) = d_uint64 buf o6;
          (address, o8) = d_uint64 buf o7;
          (size, o9) = d_uint64 buf o8;
          (headerSize, o10) = d_uint64 buf o9;
          (startAddr, o11) = d_uint64 buf o10;
          (stopAddr, o12) = d_uint64 buf o11
      in \<lparr> NextAddr = nextAddr, InfoVersion = infoVersion, ID = id, Name = name,
           Version = version, ReferenceCount = referenceCount,
           ReferenceListAddr = referenceListAddr, Address = address, Size = size,
           HeaderSize = headerSize, StartAddr = startAddr, StopAddr = stopAddr \<rparr>)"

text \<open>
  \<^verbatim>\<open>binary.Read(bytes.NewReader(infoBytes), binary.LittleEndian, &info)\<close>:
  \<^verbatim>\<open>io.ReadFull\<close> of \<^verbatim>\<open>binary.Size(info)\<close> bytes, then the decoding.
\<close>

definition binary_Read_KmodInfoT :: "byte list \<Rightarrow> error + KmodInfoT" where
  "binary_Read_KmodInfoT data =
     (if data = [] then Inl EOF
      else if length data < binary_Size_KmodInfoT then Inl ErrUnexpectedEOF
      else Inr (d_value_KmodInfoT (take binary_Size_KmodInfoT data)))"

subsection \<open>getKextStartVMAddrs\<close>

definition getKextStartVMAddrs :: "macho_File \<Rightarrow> error + u64 list" where
  "getKextStartVMAddrs m =
     (case Section m ''__PRELINK_INFO'' ''__kmod_start'' of
        Some kmodStart \<Rightarrow>
          (case Data kmodStart of
             Inl err \<Rightarrow> Inl err
           | Inr data \<Rightarrow>
               (case binary_Read_uint64s data (unat (macho_Section.Size kmodStart div 8)) of
                  Inl err \<Rightarrow> Inl err
                | Inr ptrs \<Rightarrow> Inr ptrs))
      | None \<Rightarrow> Inl (Errorf ''section __PRELINK_INFO.__kmod_start not found''))"

subsection \<open>getKextInfos\<close>

text \<open>
  \<^verbatim>\<open>infoBytes := make([]byte, binary.Size(info)); _, err = m.ReadAt(infoBytes, int64(off))\<close>:
  the buffer starts as zeros and holds what \<^verbatim>\<open>ReadAt\<close> wrote at its front.
\<close>

definition infoBytes_after :: "byte list \<Rightarrow> byte list" where
  "infoBytes_after written =
     take binary_Size_KmodInfoT written
     @ replicate (binary_Size_KmodInfoT - length written) 0"

text \<open>The body of \<^verbatim>\<open>for _, ptr := range ptrs\<close>, with \<^verbatim>\<open>infos\<close> as accumulator.\<close>

fun getKextInfos_loop ::
  "Extern \<Rightarrow> macho_File \<Rightarrow> u64 list \<Rightarrow> KmodInfoT list \<Rightarrow> error + KmodInfoT list" where
  "getKextInfos_loop ext m [] infos = Inr infos"
| "getKextInfos_loop ext m (ptr # ptrs) infos =
     (case GetOffset m (ptr OR tagPtrMask) of
        Inl err \<Rightarrow> Inl err
      | Inr off \<Rightarrow>
          (case ReadAt m binary_Size_KmodInfoT off of
             Inl err \<Rightarrow> Inl err
           | Inr written \<Rightarrow>
               (case binary_Read_KmodInfoT (infoBytes_after written) of
                  Inl err \<Rightarrow> Inl (Errorf_KmodInfoT off err)
                | Inr info \<Rightarrow>
                    (let info1 = info\<lparr> StartAddr :=
                           Rebase_Target ext (StartAddr info) + GetBaseAddress m \<rparr>;
                         info2 = info1\<lparr> StopAddr :=
                           Rebase_Target ext (StopAddr info1) + GetBaseAddress m \<rparr>
                     in getKextInfos_loop ext m ptrs (infos @ [info2])))))"

definition getKextInfos :: "Extern \<Rightarrow> macho_File \<Rightarrow> error + KmodInfoT list" where
  "getKextInfos ext m =
     (case Section m ''__PRELINK_INFO'' ''__kmod_info'' of
        Some kmodStart \<Rightarrow>
          (case Data kmodStart of
             Inl err \<Rightarrow> Inl err
           | Inr data \<Rightarrow>
               (case binary_Read_uint64s data (unat (macho_Section.Size kmodStart div 8)) of
                  Inl err \<Rightarrow> Inl err
                | Inr ptrs \<Rightarrow> getKextInfos_loop ext m ptrs []))
      | None \<Rightarrow> Inl (Errorf ''section __PRELINK_INFO.__kmod_start not found''))"

subsection \<open>GetSandboxOpts\<close>

text \<open>
  The body of \<^verbatim>\<open>for _, ptr := range ptrs\<close> with the loop variables \<^verbatim>\<open>found\<close>
  and \<^verbatim>\<open>bcOpts\<close>; \<^verbatim>\<open>continue\<close> is the recursive call, \<^verbatim>\<open>break\<close> returns
  \<^verbatim>\<open>bcOpts\<close>.
\<close>

fun GetSandboxOpts_loop ::
  "macho_File \<Rightarrow> u64 list \<Rightarrow> bool \<Rightarrow> string list \<Rightarrow> string list" where
  "GetSandboxOpts_loop m [] found bcOpts = bcOpts"
| "GetSandboxOpts_loop m (ptr # ptrs) found bcOpts =
     (if ptr = 0 then GetSandboxOpts_loop m ptrs found bcOpts
      else
        (case GetCString m (ptr OR tagPtrMask) of
           Inl err \<Rightarrow>
             (if found then bcOpts else GetSandboxOpts_loop m ptrs found bcOpts)
         | Inr str \<Rightarrow>
             (let found1 = (if str = ''default'' then True else found) in
              if found1 then
                (let bcOpts1 = bcOpts @ [str] in
                 if getTag ptr \<noteq> 0x17 then bcOpts1
                 else GetSandboxOpts_loop m ptrs found1 bcOpts1)
              else GetSandboxOpts_loop m ptrs found1 bcOpts)))"

definition GetSandboxOpts :: "macho_File \<Rightarrow> error + string list" where
  "GetSandboxOpts m =
     (case Section m ''__DATA_CONST'' ''__const'' of
        Some dconst \<Rightarrow>
          (case Data dconst of
             Inl err \<Rightarrow> Inl err
           | Inr data \<Rightarrow>
               (case binary_Read_uint64s data (unat (macho_Section.Size dconst div 8)) of
                  Inl err \<Rightarrow> Inl err
                | Inr ptrs \<Rightarrow> Inr (GetSandboxOpts_loop m ptrs False [])))
      | None \<Rightarrow> Inr [])"

subsection \<open>KextList\<close>

text \<open>
  \<^verbatim>\<open>bytes.Trim(data, "\x00")\<close>: \<open>data\<close> without its leading and trailing NUL
  bytes.
\<close>

definition bytes_Trim_NUL :: "byte list \<Rightarrow> byte list" where
  "bytes_Trim_NUL data =
     rev (dropWhile (\<lambda>b. b = 0) (rev (dropWhile (\<lambda>b. b = 0) data)))"

text \<open>
  The body of \<^verbatim>\<open>for _, bundle := range prelink.PrelinkInfoDictionary\<close>. \<open>out\<close>
  is what has been printed so far. The index expression
  \<^verbatim>\<open>kextStartAdddrs[bundle.ModuleIndex]\<close> panics when the index is not below the
  length; what was printed before stays printed. \<open>None\<close>: the loop ran to its end.
\<close>

fun KextList_loop :: "u64 list \<Rightarrow> CFBundle list \<Rightarrow> print list \<Rightarrow> print list \<times> panic option" where
  "KextList_loop kextStartAdddrs [] out = (out, None)"
| "KextList_loop kextStartAdddrs (bundle # bundles) out =
     (if \<not> OSKernelResource bundle then
        (if unat (ModuleIndex bundle) < length kextStartAdddrs then
           KextList_loop kextStartAdddrs bundles
             (out @ [Printf_kext (kextStartAdddrs ! unat (ModuleIndex bundle) OR tagPtrMask)
                       (CFBundle.ID bundle) (CFBundle.Version bundle)])
         else (out, Some (IndexOutOfRange (unat (ModuleIndex bundle)) (length kextStartAdddrs))))
      else
        KextList_loop kextStartAdddrs bundles
          (out @ [Printf_kext 0 (CFBundle.ID bundle) (CFBundle.Version bundle)]))"

text \<open>
  \<^verbatim>\<open>KextList(kernel)\<close>: what it printed, and how it ended. The parameter
  \<^verbatim>\<open>kernel\<close> is \<open>kernelPath\<close> here (\<open>kernel\<close> is a constant of HOL), and
  \<^verbatim>\<open>defer m.Close()\<close> has no effect on the prints or the result.
\<close>

definition KextList :: "Extern \<Rightarrow> string \<Rightarrow> print list \<times> outcome" where
  "KextList ext kernelPath =
     (case macho_Open ext kernelPath of
        Inl err \<Rightarrow> ([], Returned (Some err))
      | Inr m \<Rightarrow>
          (case getKextStartVMAddrs m of
             Inl err \<Rightarrow> ([], Returned (Some err))
           | Inr kextStartAdddrs \<Rightarrow>
               (case Section m ''__PRELINK_INFO'' ''__info'' of
                  Some infoSec \<Rightarrow>
                    (case Data infoSec of
                       Inl err \<Rightarrow> ([], Returned (Some err))
                     | Inr data \<Rightarrow>
                         (case plist_Decode ext (bytes_Trim_NUL data) of
                            Inl err \<Rightarrow> ([], Returned (Some err))
                          | Inr prelink \<Rightarrow>
                              (case KextList_loop kextStartAdddrs (PrelinkInfoDictionary prelink)
                                      [Println_FOUND (length (PrelinkInfoDictionary prelink))] of
                                 (out, Some p) \<Rightarrow> (out, Panicked p)
                               | (out, None) \<Rightarrow> (out, Returned None))))
                | None \<Rightarrow> ([], Returned None))))"

section \<open>The notions of the specification\<close>

text \<open>
  The specification's catalog entry for a bundle (section 4.5): load address 0 for a
  kernel resource, otherwise the start address at \<open>ModuleIndex\<close> with the tag mask;
  the bundle identifier and the version.
\<close>

definition catalog_entry :: "u64 list \<Rightarrow> CFBundle \<Rightarrow> print" where
  "catalog_entry kextStartAddrs b =
     Printf_kext
       (if OSKernelResource b then 0
        else kextStartAddrs ! unat (ModuleIndex b) OR 0xFFFF000000000000)
       (CFBundle.ID b) (CFBundle.Version b)"

text \<open>
  A bundle is listable against a start-address array when it is a kernel resource or its
  \<open>ModuleIndex\<close> is within the array.
\<close>

definition listable :: "u64 list \<Rightarrow> CFBundle \<Rightarrow> bool" where
  "listable kextStartAddrs b \<longleftrightarrow>
     OSKernelResource b \<or> unat (ModuleIndex b) < length kextStartAddrs"

text \<open>
  The number a byte string denotes in little-endian order: byte \<open>k\<close> weighs
  \<open>256 ^ k\<close>.
\<close>

definition le_nat :: "byte list \<Rightarrow> nat" where
  "le_nat bs = foldr (\<lambda>b n. unat b + 256 * n) bs 0"

text \<open>
  A packed array of \<open>n\<close> 8-byte little-endian words at the front of \<open>data\<close>: word
  \<open>i\<close> is denoted by bytes \<open>8 * i\<close> to \<open>8 * i + 7\<close>.
\<close>

definition packed_words :: "byte list \<Rightarrow> nat \<Rightarrow> u64 list" where
  "packed_words data n = map (\<lambda>i. word_of_nat (le_nat (take 8 (drop (8 * i) data)))) [0..<n]"

text \<open>
  The record layout of the specification (section 3), field by field at its byte offset:
  NextAddr(8) InfoVersion(4) ID(4) Name(64) Version(64) ReferenceCount(4)
  ReferenceListAddr(8) Address(8) Size(8) HeaderSize(8) StartAddr(8) StopAddr(8), every
  number a plain little-endian value.
\<close>

definition bytes_at :: "byte list \<Rightarrow> nat \<Rightarrow> nat \<Rightarrow> byte list" where
  "bytes_at raw off n = take n (drop off raw)"

definition KmodInfoRecord_plain :: "byte list \<Rightarrow> KmodInfoT" where
  "KmodInfoRecord_plain raw =
     \<lparr> NextAddr = word_of_nat (le_nat (bytes_at raw 0 8)),
       InfoVersion = word_of_nat (le_nat (bytes_at raw 8 4)),
       ID = word_of_nat (le_nat (bytes_at raw 12 4)),
       Name = bytes_at raw 16 64,
       Version = bytes_at raw 80 64,
       ReferenceCount = word_of_nat (le_nat (bytes_at raw 144 4)),
       ReferenceListAddr = word_of_nat (le_nat (bytes_at raw 148 8)),
       Address = word_of_nat (le_nat (bytes_at raw 156 8)),
       Size = word_of_nat (le_nat (bytes_at raw 164 8)),
       HeaderSize = word_of_nat (le_nat (bytes_at raw 172 8)),
       StartAddr = word_of_nat (le_nat (bytes_at raw 180 8)),
       StopAddr = word_of_nat (le_nat (bytes_at raw 188 8)) \<rparr>"

text \<open>
  The sandbox-operation scan in two phases. \<open>scan_for_default\<close> is the walk before
  \<^verbatim>\<open>"default"\<close> has been dereferenced: zero pointers, dereference failures and other
  strings are passed over. \<open>collect_run\<close> is the walk from \<^verbatim>\<open>"default"\<close> on: zero
  pointers are passed over, a dereference failure ends the run, a dereferenced string is
  collected and the walk goes on exactly when the tag of its pointer is \<open>0x17\<close>.
\<close>

fun collect_run :: "macho_File \<Rightarrow> u64 list \<Rightarrow> string list" where
  "collect_run m [] = []"
| "collect_run m (p # ps) =
     (if p = 0 then collect_run m ps
      else case GetCString m (p OR 0xFFFF000000000000) of
             Inl err \<Rightarrow> []
           | Inr s \<Rightarrow> s # (if drop_bit 48 p = 0x17 then collect_run m ps else []))"

fun scan_for_default :: "macho_File \<Rightarrow> u64 list \<Rightarrow> string list" where
  "scan_for_default m [] = []"
| "scan_for_default m (p # ps) =
     (if p = 0 then scan_for_default m ps
      else case GetCString m (p OR 0xFFFF000000000000) of
             Inl err \<Rightarrow> scan_for_default m ps
           | Inr s \<Rightarrow> if s = ''default'' then collect_run m (p # ps)
                      else scan_for_default m ps)"

section \<open>Example images\<close>

text \<open>
  Small images for the scenarios of the specification. \<open>example_kmod_start\<close> holds
  the one address \<open>0x0000000012340000\<close>; \<open>example_info\<close> holds the text
  \<^verbatim>\<open><dict/>\<close> and one NUL of padding, which the example decoder maps to the given
  bundles.
\<close>

definition example_File :: "(string \<Rightarrow> string \<Rightarrow> macho_Section option) \<Rightarrow> macho_File" where
  "example_File secs =
     \<lparr> Section = secs,
       GetOffset = (\<lambda>a. Inl (Foreign ''address not mapped'')),
       ReadAt = (\<lambda>n off. Inl (Foreign ''read failed'')),
       GetCString = (\<lambda>a. Inl (Foreign ''no string'')),
       GetBaseAddress = 0xFFFFFFF007004000 \<rparr>"

definition example_kmod_start :: macho_Section where
  "example_kmod_start = \<lparr> macho_Section.Size = 8, Data = Inr [0x00, 0x00, 0x34, 0x12, 0, 0, 0, 0] \<rparr>"

definition example_info :: macho_Section where
  "example_info =
     \<lparr> macho_Section.Size = 8, Data = Inr [0x3C, 0x64, 0x69, 0x63, 0x74, 0x2F, 0x3E, 0] \<rparr>"

definition example_Extern :: "(string \<Rightarrow> string \<Rightarrow> macho_Section option) \<Rightarrow> CFBundle list \<Rightarrow> Extern" where
  "example_Extern secs bundles =
     \<lparr> macho_Open = (\<lambda>p. if p = ''kernelcache'' then Inr (example_File secs)
                          else Inl (Foreign ''no such file'')),
       plist_Decode = (\<lambda>text. if text = [0x3C, 0x64, 0x69, 0x63, 0x74, 0x2F, 0x3E]
                          then Inr \<lparr> PrelinkInfoDictionary = bundles \<rparr>
                          else Inl (Foreign ''not a property list'')),
       Rebase_Target = take_bit 30 \<rparr>"

definition both_sections :: "string \<Rightarrow> string \<Rightarrow> macho_Section option" where
  "both_sections seg name =
     (if seg = ''__PRELINK_INFO'' \<and> name = ''__kmod_start'' then Some example_kmod_start
      else if seg = ''__PRELINK_INFO'' \<and> name = ''__info'' then Some example_info
      else None)"

definition only_info :: "string \<Rightarrow> string \<Rightarrow> macho_Section option" where
  "only_info seg name =
     (if seg = ''__PRELINK_INFO'' \<and> name = ''__info'' then Some example_info else None)"

definition only_kmod_start :: "string \<Rightarrow> string \<Rightarrow> macho_Section option" where
  "only_kmod_start seg name =
     (if seg = ''__PRELINK_INFO'' \<and> name = ''__kmod_start'' then Some example_kmod_start else None)"

definition bundle_A :: CFBundle where
  "bundle_A = \<lparr> CFBundle.ID = ''com.example.test'', CFBundle.Version = ''1.0'',
                OSKernelResource = False, ModuleIndex = 0 \<rparr>"

definition bundle_B :: CFBundle where
  "bundle_B = \<lparr> CFBundle.ID = ''com.example.kernel'', CFBundle.Version = ''2.0'',
                OSKernelResource = True, ModuleIndex = 5 \<rparr>"

definition bundle_bad :: CFBundle where
  "bundle_bad = \<lparr> CFBundle.ID = ''com.example.bad'', CFBundle.Version = ''3.0'',
                OSKernelResource = False, ModuleIndex = 5 \<rparr>"

text \<open>
  Scenario D: five tagged pointers to the strings foo, bar, default, read, write, with
  tag \<open>0x17\<close> on the first four and tag \<open>0x03\<close> on the last.
\<close>

definition scenarioD_const :: macho_Section where
  "scenarioD_const =
     \<lparr> macho_Section.Size = 40,
       Data = Inr [0x00, 0x10, 0, 0, 0, 0, 0x17, 0,
                   0x04, 0x10, 0, 0, 0, 0, 0x17, 0,
                   0x08, 0x10, 0, 0, 0, 0, 0x17, 0,
                   0x10, 0x10, 0, 0, 0, 0, 0x17, 0,
                   0x15, 0x10, 0, 0, 0, 0, 0x03, 0] \<rparr>"

definition scenarioD_File :: macho_File where
  "scenarioD_File =
     \<lparr> Section = (\<lambda>seg name. if seg = ''__DATA_CONST'' \<and> name = ''__const''
                              then Some scenarioD_const else None),
       GetOffset = (\<lambda>a. Inl (Foreign ''address not mapped'')),
       ReadAt = (\<lambda>n off. Inl (Foreign ''read failed'')),
       GetCString = (\<lambda>a. if a = 0xFFFF000000001000 then Inr ''foo''
                          else if a = 0xFFFF000000001004 then Inr ''bar''
                          else if a = 0xFFFF000000001008 then Inr ''default''
                          else if a = 0xFFFF000000001010 then Inr ''read''
                          else if a = 0xFFFF000000001015 then Inr ''write''
                          else Inl (Foreign ''no string'')),
       GetBaseAddress = 0xFFFFFFF007004000 \<rparr>"

text \<open>
  An image with one kmod\_info pointer, \<open>0x5000\<close>, mapped to file offset \<open>0x1000\<close>,
  where the 196 bytes of \<open>example_record\<close> lie; \<open>example_info_record\<close> is the record
  \<^verbatim>\<open>getKextInfos\<close> returns for it.
\<close>

definition example_kmod_info :: macho_Section where
  "example_kmod_info =
     \<lparr> macho_Section.Size = 8, Data = Inr [0x00, 0x50, 0, 0, 0, 0, 0, 0] \<rparr>"

definition example_record :: "byte list" where
  "example_record =
     [1, 0, 0, 0, 0, 0, 0, 0] @ [2, 0, 0, 0] @ [3, 0, 0, 0]
     @ replicate 64 0x41 @ replicate 64 0x42
     @ [4, 0, 0, 0] @ [5, 0, 0, 0, 0, 0, 0, 0] @ [6, 0, 0, 0, 0, 0, 0, 0]
     @ [7, 0, 0, 0, 0, 0, 0, 0] @ [8, 0, 0, 0, 0, 0, 0, 0]
     @ [0x00, 0x10, 0, 0, 0, 0, 0x10, 0] @ [0x00, 0x20, 0, 0, 0, 0, 0x10, 0]"

definition kmod_info_File :: macho_File where
  "kmod_info_File =
     \<lparr> Section = (\<lambda>seg name. if seg = ''__PRELINK_INFO'' \<and> name = ''__kmod_info''
                              then Some example_kmod_info else None),
       GetOffset = (\<lambda>a. if a = 0xFFFF000000005000 then Inr 0x1000
                         else Inl (Foreign ''address not mapped'')),
       ReadAt = (\<lambda>n off. if off = 0x1000 then Inr (take n example_record)
                          else Inl (Foreign ''read failed'')),
       GetCString = (\<lambda>a. Inl (Foreign ''no string'')),
       GetBaseAddress = 0xFFFFFFF007004000 \<rparr>"

definition example_info_record :: KmodInfoT where
  "example_info_record =
     \<lparr> NextAddr = 1, InfoVersion = 2, ID = 3, Name = replicate 64 0x41,
       Version = replicate 64 0x42, ReferenceCount = 4, ReferenceListAddr = 5,
       Address = 6, Size = 7, HeaderSize = 8,
       StartAddr = 0xFFFFFFF007005000, StopAddr = 0xFFFFFFF007006000 \<rparr>"

text \<open>A section of 9 bytes: one word and one byte more, present under every name.\<close>

definition example_odd :: macho_Section where
  "example_odd =
     \<lparr> macho_Section.Size = 9, Data = Inr [0x00, 0x00, 0x34, 0x12, 0, 0, 0, 0, 0xAA] \<rparr>"

definition odd_sections :: "string \<Rightarrow> string \<Rightarrow> macho_Section option" where
  "odd_sections seg name = Some example_odd"

section \<open>Properties\<close>

subsection \<open>Tagged pointers\<close>

lemma unTag_alt: "unTag ptr = take_bit 48 ptr OR push_bit 48 0xffff"
  by (simp add: unTag_def take_bit_eq_mask mask_eq_exp_minus_1)

lemma unTag_top: "drop_bit 48 (unTag ptr) = 0xffff"
  by (simp add: unTag_alt drop_bit_take_bit)

lemma unTag_low: "take_bit 48 (unTag ptr) = take_bit 48 ptr"
  by (simp add: unTag_alt take_bit_push_bit)

text \<open>
  Claim C8. For every 64-bit value \<open>p\<close> whose top 16 bits are zero,
  \<open>unTag (p OR tagPtrMask)\<close> has its top 16 bits all ones (\<open>0xffff\<close>) and its low
  48 bits equal to the low 48 bits of \<open>p\<close>.
\<close>

theorem C8_unTag_withTagMask:
  assumes "drop_bit 48 p = (0 :: u64)"
  shows "drop_bit 48 (unTag (p OR tagPtrMask)) = 0xffff
       \<and> take_bit 48 (unTag (p OR tagPtrMask)) = take_bit 48 p"
proof -
  have "take_bit 48 tagPtrMask = (0 :: u64)"
    by (simp add: tagPtrMask_def)
  then have "take_bit 48 (p OR tagPtrMask) = take_bit 48 p"
    by simp
  then show ?thesis
    by (simp add: unTag_top unTag_low)
qed

theorem C8_unTag_withTagMask_witness:
  "drop_bit 48 (0x12340000 :: u64) = 0
   \<and> drop_bit 48 (unTag (0x12340000 OR tagPtrMask)) = 0xffff
   \<and> take_bit 48 (unTag (0x12340000 OR tagPtrMask)) = take_bit 48 (0x12340000 :: u64)"
proof -
  have h: "drop_bit 48 (0x12340000 :: u64) = 0"
    by (simp add: drop_bit_eq_div)
  show ?thesis
    using h C8_unTag_withTagMask [OF h] by simp
qed

subsection \<open>The listing loop\<close>

lemma KextList_loop_eq:
  "KextList_loop addrs bs out =
     (out @ map (catalog_entry addrs) (takeWhile (listable addrs) bs),
      case dropWhile (listable addrs) bs of
        [] \<Rightarrow> None
      | b # _ \<Rightarrow> Some (IndexOutOfRange (unat (ModuleIndex b)) (length addrs)))"
  by (induction bs arbitrary: out) (simp_all add: listable_def catalog_entry_def tagPtrMask_def)

lemma length_takeWhile_gt:
  "i < length (takeWhile P xs) \<longleftrightarrow> i < length xs \<and> (\<forall>j\<le>i. P (xs ! j))"
proof (induction xs arbitrary: i)
  case Nil
  then show ?case by simp
next
  case (Cons x xs)
  show ?case
  proof (cases i)
    case 0
    then show ?thesis by simp
  next
    case (Suc k)
    have "(\<forall>j\<le>Suc k. P ((x # xs) ! j)) \<longleftrightarrow> P x \<and> (\<forall>j\<le>k. P (xs ! j))"
      by (metis Suc_le_mono le0 nth_Cons_0 nth_Cons_Suc not0_implies_Suc)
    with Suc Cons.IH [of k] show ?thesis by auto
  qed
qed

lemma KextList_at_loop:
  assumes "macho_Open ext kernelPath = Inr m"
    and "getKextStartVMAddrs m = Inr addrs"
    and "Section m ''__PRELINK_INFO'' ''__info'' = Some infoSec"
    and "Data infoSec = Inr data"
    and "plist_Decode ext (bytes_Trim_NUL data) = Inr prelink"
  shows "KextList ext kernelPath =
     (Println_FOUND (length (PrelinkInfoDictionary prelink))
        # map (catalog_entry addrs) (takeWhile (listable addrs) (PrelinkInfoDictionary prelink)),
      case dropWhile (listable addrs) (PrelinkInfoDictionary prelink) of
        [] \<Rightarrow> Returned None
      | b # _ \<Rightarrow> Panicked (IndexOutOfRange (unat (ModuleIndex b)) (length addrs)))"
  using assms
  by (cases "dropWhile (listable addrs) (PrelinkInfoDictionary prelink)")
     (simp_all add: KextList_def KextList_loop_eq del: dropWhile_eq_Nil_conv)

lemma dropWhile_first:
  "dropWhile P xs = y # ys \<Longrightarrow>
     length (takeWhile P xs) < length xs \<and> xs ! length (takeWhile P xs) = y \<and> \<not> P y"
  by (induction xs) (auto split: if_splits)

lemma takeWhile_eq_take_len: "takeWhile P xs = take (length (takeWhile P xs)) xs"
  by (induction xs) auto

lemma printed_iff:
  assumes "i < length xs" and "P (xs ! i)"
  shows "i < length (takeWhile P xs) \<longleftrightarrow> (\<forall>j<i. P (xs ! j))"
  using assms by (auto simp: length_takeWhile_gt le_less)

lemmas eval_defs = KextList_def getKextStartVMAddrs_def example_File_def example_kmod_start_def
  example_info_def example_Extern_def both_sections_def only_info_def only_kmod_start_def
  bundle_A_def bundle_B_def bundle_bad_def binary_Read_uint64s_def
  LittleEndian_Uint64_def bytes_Trim_NUL_def tagPtrMask_def

subsection \<open>Listing a bundle whose index is within the start-address array\<close>

text \<open>
  Claim C3. Take an image that \<^verbatim>\<open>KextList\<close> opens and decodes as far as its loop,
  and a bundle \<open>b\<close>, the \<open>i\<close>-th of the decoded list, with
  \<open>OSKernelResource = false\<close> and \<open>ModuleIndex\<close> below the length of the start-address
  array. The entry of \<open>b\<close> is the print after the header and the \<open>i\<close> entries before
  it. It is printed exactly when every earlier bundle is listable, it is printed in every
  listing that returns without error, and it is
  \<open>kextStartAddrs[ModuleIndex] | 0xFFFF000000000000\<close> with the identifier and the
  version of \<open>b\<close>. The witness is Scenario A: start addresses \<open>[0x12340000]\<close> and the
  one bundle \<open>com.example.test\<close> give the single entry \<open>0xFFFF000012340000\<close>.
\<close>

theorem C3_in_bounds_entry:
  assumes "macho_Open ext kernelPath = Inr m"
    and "getKextStartVMAddrs m = Inr kextStartAddrs"
    and "Section m ''__PRELINK_INFO'' ''__info'' = Some infoSec"
    and "Data infoSec = Inr data"
    and "plist_Decode ext (bytes_Trim_NUL data) = Inr prelink"
    and "i < length (PrelinkInfoDictionary prelink)"
    and "b = PrelinkInfoDictionary prelink ! i"
    and "\<not> OSKernelResource b"
    and "unat (ModuleIndex b) < length kextStartAddrs"
    and "KextList ext kernelPath = (out, res)"
  shows "(Suc i < length out \<longleftrightarrow>
            (\<forall>j<i. listable kextStartAddrs (PrelinkInfoDictionary prelink ! j)))
       \<and> (Suc i < length out \<longrightarrow>
            out ! Suc i = Printf_kext
              (kextStartAddrs ! unat (ModuleIndex b) OR 0xFFFF000000000000)
              (CFBundle.ID b) (CFBundle.Version b))
       \<and> (res = Returned None \<longrightarrow> Suc i < length out)"
proof -
  let ?bs = "PrelinkInfoDictionary prelink"
  let ?P = "listable kextStartAddrs"
  have out: "out = Println_FOUND (length ?bs) # map (catalog_entry kextStartAddrs) (takeWhile ?P ?bs)"
    and res: "res = (case dropWhile ?P ?bs of [] \<Rightarrow> Returned None
                | b # _ \<Rightarrow> Panicked (IndexOutOfRange (unat (ModuleIndex b)) (length kextStartAddrs)))"
    using KextList_at_loop [OF assms(1-5)] assms(10) by simp_all
  have Pb: "?P (?bs ! i)"
    using assms(7,9) by (simp add: listable_def)
  have len: "Suc i < length out \<longleftrightarrow> i < length (takeWhile ?P ?bs)"
    by (simp add: out)
  have printed: "i < length (takeWhile ?P ?bs) \<longleftrightarrow> (\<forall>j<i. ?P (?bs ! j))"
    using assms(6) Pb by (rule printed_iff [where P = "?P"])
  have entry: "out ! Suc i = catalog_entry kextStartAddrs b" if "i < length (takeWhile ?P ?bs)"
    using that assms(7) by (simp add: out takeWhile_nth)
  have success: "i < length (takeWhile ?P ?bs)" if "res = Returned None"
  proof -
    have "dropWhile ?P ?bs = []"
      using that res by (cases "dropWhile ?P ?bs") simp_all
    then have "takeWhile ?P ?bs = ?bs"
      by (simp add: takeWhile_eq_all_conv)
    with assms(6) show ?thesis by metis
  qed
  show ?thesis
    using len printed entry success assms(8) by (simp add: catalog_entry_def)
qed

theorem C3_in_bounds_entry_witness:
  "macho_Open (example_Extern both_sections [bundle_A]) ''kernelcache'' = Inr (example_File both_sections)
   \<and> getKextStartVMAddrs (example_File both_sections) = Inr [0x12340000]
   \<and> Section (example_File both_sections) ''__PRELINK_INFO'' ''__info'' = Some example_info
   \<and> Data example_info = Inr [0x3C, 0x64, 0x69, 0x63, 0x74, 0x2F, 0x3E, 0]
   \<and> plist_Decode (example_Extern both_sections [bundle_A])
         (bytes_Trim_NUL [0x3C, 0x64, 0x69, 0x63, 0x74, 0x2F, 0x3E, 0])
       = Inr \<lparr> PrelinkInfoDictionary = [bundle_A] \<rparr>
   \<and> \<not> OSKernelResource bundle_A
   \<and> unat (ModuleIndex bundle_A) < length [0x12340000 :: u64]
   \<and> KextList (example_Extern both_sections [bundle_A]) ''kernelcache''
       = ([Println_FOUND 1, Printf_kext 0xFFFF000012340000 ''com.example.test'' ''1.0''],
          Returned None)
   \<and> [Println_FOUND 1, Printf_kext 0xFFFF000012340000 ''com.example.test'' ''1.0''] ! Suc 0
       = Printf_kext ([0x12340000] ! unat (ModuleIndex bundle_A) OR 0xFFFF000000000000)
           (CFBundle.ID bundle_A) (CFBundle.Version bundle_A)"
proof -
  have h1: "macho_Open (example_Extern both_sections [bundle_A]) ''kernelcache'' = Inr (example_File both_sections)"
    by (simp add: example_Extern_def)
  have h2: "getKextStartVMAddrs (example_File both_sections) = Inr [0x12340000]"
    by (simp add: eval_defs)
  have h3: "Section (example_File both_sections) ''__PRELINK_INFO'' ''__info'' = Some example_info"
    by (simp add: example_File_def both_sections_def)
  have h4: "Data example_info = Inr [0x3C, 0x64, 0x69, 0x63, 0x74, 0x2F, 0x3E, 0]"
    by (simp add: example_info_def)
  have h5: "plist_Decode (example_Extern both_sections [bundle_A])
              (bytes_Trim_NUL [0x3C, 0x64, 0x69, 0x63, 0x74, 0x2F, 0x3E, 0])
            = Inr \<lparr> PrelinkInfoDictionary = [bundle_A] \<rparr>"
    by (simp add: example_Extern_def bytes_Trim_NUL_def)
  have h6: "0 < length (PrelinkInfoDictionary \<lparr> PrelinkInfoDictionary = [bundle_A] \<rparr>)"
    by simp
  have h7: "bundle_A = PrelinkInfoDictionary \<lparr> PrelinkInfoDictionary = [bundle_A] \<rparr> ! 0"
    by simp
  have h8: "\<not> OSKernelResource bundle_A"
    by (simp add: bundle_A_def)
  have h9: "unat (ModuleIndex bundle_A) < length [0x12340000 :: u64]"
    by (simp add: bundle_A_def)
  have run: "KextList (example_Extern both_sections [bundle_A]) ''kernelcache''
       = ([Println_FOUND 1, Printf_kext 0xFFFF000012340000 ''com.example.test'' ''1.0''],
          Returned None)"
    by (simp add: eval_defs)
  from C3_in_bounds_entry [OF h1 h2 h3 h4 h5 h6 h7 h8 h9 run]
  have "[Println_FOUND 1, Printf_kext 0xFFFF000012340000 ''com.example.test'' ''1.0''] ! Suc 0
       = Printf_kext ([0x12340000] ! unat (ModuleIndex bundle_A) OR 0xFFFF000000000000)
           (CFBundle.ID bundle_A) (CFBundle.Version bundle_A)"
    by simp
  with h1 h2 h3 h4 h5 h8 h9 run show ?thesis
    by simp
qed

subsection \<open>Listing a kernel resource\<close>

text \<open>
  Claim C4. Take an image that \<^verbatim>\<open>KextList\<close> opens and decodes as far as its loop,
  and a bundle \<open>b\<close>, the \<open>i\<close>-th of the decoded list, with
  \<open>OSKernelResource = true\<close>; nothing is assumed of its \<open>ModuleIndex\<close>. The entry of
  \<open>b\<close> is printed exactly when every earlier bundle is listable, it is printed in every
  listing that returns without error, and its load address is 0, with the identifier and
  the version of \<open>b\<close>. No index panic is raised at \<open>b\<close>: a listing that panics has
  not stopped at position \<open>i\<close> (it stops having printed the header and the entries
  before the offending bundle, so a panic at \<open>b\<close> would leave exactly \<open>i + 1\<close>
  prints). The witness is Scenario B: \<open>ModuleIndex = 5\<close> against one start address.
\<close>

theorem C4_kernel_resource_entry:
  assumes "macho_Open ext kernelPath = Inr m"
    and "getKextStartVMAddrs m = Inr kextStartAddrs"
    and "Section m ''__PRELINK_INFO'' ''__info'' = Some infoSec"
    and "Data infoSec = Inr data"
    and "plist_Decode ext (bytes_Trim_NUL data) = Inr prelink"
    and "i < length (PrelinkInfoDictionary prelink)"
    and "b = PrelinkInfoDictionary prelink ! i"
    and "OSKernelResource b"
    and "KextList ext kernelPath = (out, res)"
  shows "(Suc i < length out \<longleftrightarrow>
            (\<forall>j<i. listable kextStartAddrs (PrelinkInfoDictionary prelink ! j)))
       \<and> (Suc i < length out \<longrightarrow>
            out ! Suc i = Printf_kext 0 (CFBundle.ID b) (CFBundle.Version b))
       \<and> (res = Returned None \<longrightarrow> Suc i < length out)
       \<and> (\<forall>p. res = Panicked p \<longrightarrow> length out \<noteq> Suc i)"
proof -
  let ?bs = "PrelinkInfoDictionary prelink"
  let ?P = "listable kextStartAddrs"
  have out: "out = Println_FOUND (length ?bs) # map (catalog_entry kextStartAddrs) (takeWhile ?P ?bs)"
    and res: "res = (case dropWhile ?P ?bs of [] \<Rightarrow> Returned None
                | b # _ \<Rightarrow> Panicked (IndexOutOfRange (unat (ModuleIndex b)) (length kextStartAddrs)))"
    using KextList_at_loop [OF assms(1-5)] assms(9) by simp_all
  have Pb: "?P (?bs ! i)"
    using assms(7,8) by (simp add: listable_def)
  have len: "Suc i < length out \<longleftrightarrow> i < length (takeWhile ?P ?bs)"
    by (simp add: out)
  have printed: "i < length (takeWhile ?P ?bs) \<longleftrightarrow> (\<forall>j<i. ?P (?bs ! j))"
    using assms(6) Pb by (rule printed_iff [where P = "?P"])
  have entry: "out ! Suc i = catalog_entry kextStartAddrs b" if "i < length (takeWhile ?P ?bs)"
    using that assms(7) by (simp add: out takeWhile_nth)
  have success: "i < length (takeWhile ?P ?bs)" if "res = Returned None"
  proof -
    have "dropWhile ?P ?bs = []"
      using that res by (cases "dropWhile ?P ?bs") simp_all
    then have "takeWhile ?P ?bs = ?bs"
      by (simp add: takeWhile_eq_all_conv)
    with assms(6) show ?thesis by metis
  qed
  have not_here: "length out \<noteq> Suc i" if "res = Panicked p" for p
  proof
    assume "length out = Suc i"
    then have i: "length (takeWhile ?P ?bs) = i"
      by (simp add: out)
    from that res obtain y ys where "dropWhile ?P ?bs = y # ys"
      by (cases "dropWhile ?P ?bs") simp_all
    from dropWhile_first [OF this] i have "\<not> ?P (?bs ! i)"
      by auto
    with Pb show False by simp
  qed
  show ?thesis
    using len printed entry success not_here assms(8) by (simp add: catalog_entry_def)
qed

theorem C4_kernel_resource_entry_witness:
  "macho_Open (example_Extern both_sections [bundle_B]) ''kernelcache'' = Inr (example_File both_sections)
   \<and> getKextStartVMAddrs (example_File both_sections) = Inr [0x12340000]
   \<and> Section (example_File both_sections) ''__PRELINK_INFO'' ''__info'' = Some example_info
   \<and> Data example_info = Inr [0x3C, 0x64, 0x69, 0x63, 0x74, 0x2F, 0x3E, 0]
   \<and> plist_Decode (example_Extern both_sections [bundle_B])
         (bytes_Trim_NUL [0x3C, 0x64, 0x69, 0x63, 0x74, 0x2F, 0x3E, 0])
       = Inr \<lparr> PrelinkInfoDictionary = [bundle_B] \<rparr>
   \<and> OSKernelResource bundle_B
   \<and> unat (ModuleIndex bundle_B) = 5
   \<and> KextList (example_Extern both_sections [bundle_B]) ''kernelcache''
       = ([Println_FOUND 1, Printf_kext 0 ''com.example.kernel'' ''2.0''], Returned None)
   \<and> [Println_FOUND 1, Printf_kext 0 ''com.example.kernel'' ''2.0''] ! Suc 0
       = Printf_kext 0 (CFBundle.ID bundle_B) (CFBundle.Version bundle_B)"
proof -
  have h1: "macho_Open (example_Extern both_sections [bundle_B]) ''kernelcache'' = Inr (example_File both_sections)"
    by (simp add: example_Extern_def)
  have h2: "getKextStartVMAddrs (example_File both_sections) = Inr [0x12340000]"
    by (simp add: eval_defs)
  have h3: "Section (example_File both_sections) ''__PRELINK_INFO'' ''__info'' = Some example_info"
    by (simp add: example_File_def both_sections_def)
  have h4: "Data example_info = Inr [0x3C, 0x64, 0x69, 0x63, 0x74, 0x2F, 0x3E, 0]"
    by (simp add: example_info_def)
  have h5: "plist_Decode (example_Extern both_sections [bundle_B])
              (bytes_Trim_NUL [0x3C, 0x64, 0x69, 0x63, 0x74, 0x2F, 0x3E, 0])
            = Inr \<lparr> PrelinkInfoDictionary = [bundle_B] \<rparr>"
    by (simp add: example_Extern_def bytes_Trim_NUL_def)
  have h6: "0 < length (PrelinkInfoDictionary \<lparr> PrelinkInfoDictionary = [bundle_B] \<rparr>)"
    by simp
  have h7: "bundle_B = PrelinkInfoDictionary \<lparr> PrelinkInfoDictionary = [bundle_B] \<rparr> ! 0"
    by simp
  have h8: "OSKernelResource bundle_B"
    by (simp add: bundle_B_def)
  have idx: "unat (ModuleIndex bundle_B) = 5"
    by (simp add: bundle_B_def)
  have run: "KextList (example_Extern both_sections [bundle_B]) ''kernelcache''
       = ([Println_FOUND 1, Printf_kext 0 ''com.example.kernel'' ''2.0''], Returned None)"
    by (simp add: eval_defs)
  from C4_kernel_resource_entry [OF h1 h2 h3 h4 h5 h6 h7 h8 run]
  have "[Println_FOUND 1, Printf_kext 0 ''com.example.kernel'' ''2.0''] ! Suc 0
       = Printf_kext 0 (CFBundle.ID bundle_B) (CFBundle.Version bundle_B)"
    by simp
  with h1 h2 h3 h4 h5 h8 idx run show ?thesis
    by simp
qed

subsection \<open>Listing a bundle whose index is outside the start-address array\<close>

text \<open>
  Claim C1 says that a bundle with \<open>OSKernelResource = false\<close> and \<open>ModuleIndex\<close> not
  below the length of the start-address array makes the listing fail with
  IndexOutOfRange with no catalog returned. The listing is printed entry by entry, so
  the entries of the bundles before the offending one are already out when the index
  expression panics: with the bundles \<open>[bundle_A, bundle_bad, bundle_B]\<close> the header
  and the entry of \<open>bundle_A\<close> are printed before the panic.
\<close>

theorem C1_partial_listing_counterexample:
  "\<not> OSKernelResource bundle_bad
   \<and> length [0x12340000 :: u64] \<le> unat (ModuleIndex bundle_bad)
   \<and> snd (KextList (example_Extern both_sections [bundle_A, bundle_bad, bundle_B]) ''kernelcache'')
       = Panicked (IndexOutOfRange 5 1)
   \<and> fst (KextList (example_Extern both_sections [bundle_A, bundle_bad, bundle_B]) ''kernelcache'')
       = [Println_FOUND 3, Printf_kext 0xFFFF000012340000 ''com.example.test'' ''1.0'']"
  by (simp add: eval_defs)

text \<open>
  Claim C1, amended. Take an image that \<^verbatim>\<open>KextList\<close> opens and decodes as far as its
  loop, whose decoded list holds a bundle with \<open>OSKernelResource = false\<close> and
  \<open>ModuleIndex\<close> not below the length of the start-address array. Then the listing
  ends in the index-out-of-range panic of the first such bundle, at some position \<open>i\<close>:
  every bundle before \<open>i\<close> is listable, the prints are the header and the entries of the
  bundles before \<open>i\<close>, and nothing is printed for the bundle at \<open>i\<close> or after it.
\<close>

theorem C1_out_of_range_panics:
  assumes "macho_Open ext kernelPath = Inr m"
    and "getKextStartVMAddrs m = Inr kextStartAddrs"
    and "Section m ''__PRELINK_INFO'' ''__info'' = Some infoSec"
    and "Data infoSec = Inr data"
    and "plist_Decode ext (bytes_Trim_NUL data) = Inr prelink"
    and "b \<in> set (PrelinkInfoDictionary prelink)"
    and "\<not> OSKernelResource b"
    and "length kextStartAddrs \<le> unat (ModuleIndex b)"
  shows "\<exists>i<length (PrelinkInfoDictionary prelink).
           \<not> OSKernelResource (PrelinkInfoDictionary prelink ! i)
         \<and> length kextStartAddrs \<le> unat (ModuleIndex (PrelinkInfoDictionary prelink ! i))
         \<and> (\<forall>j<i. listable kextStartAddrs (PrelinkInfoDictionary prelink ! j))
         \<and> KextList ext kernelPath =
             (Println_FOUND (length (PrelinkInfoDictionary prelink))
                # map (catalog_entry kextStartAddrs) (take i (PrelinkInfoDictionary prelink)),
              Panicked (IndexOutOfRange (unat (ModuleIndex (PrelinkInfoDictionary prelink ! i)))
                          (length kextStartAddrs)))"
proof -
  let ?bs = "PrelinkInfoDictionary prelink"
  let ?P = "listable kextStartAddrs"
  let ?i = "length (takeWhile ?P ?bs)"
  have "\<not> ?P b"
    using assms(7,8) by (simp add: listable_def)
  with assms(6) have "dropWhile ?P ?bs \<noteq> []"
    by auto
  then obtain y ys where d: "dropWhile ?P ?bs = y # ys"
    by (cases "dropWhile ?P ?bs") simp_all
  from dropWhile_first [OF d]
  have i: "?i < length ?bs" and y: "?bs ! ?i = y" and ny: "\<not> ?P y"
    by simp_all
  have before: "\<forall>j<?i. ?P (?bs ! j)"
    using length_takeWhile_gt [of _ ?P ?bs] by auto
  have run: "KextList ext kernelPath =
      (Println_FOUND (length ?bs) # map (catalog_entry kextStartAddrs) (take ?i ?bs),
       Panicked (IndexOutOfRange (unat (ModuleIndex (?bs ! ?i))) (length kextStartAddrs)))"
    using KextList_at_loop [OF assms(1-5)] d y takeWhile_eq_take_len [of ?P ?bs] by simp
  from ny y have "\<not> OSKernelResource (?bs ! ?i)"
    and "length kextStartAddrs \<le> unat (ModuleIndex (?bs ! ?i))"
    by (simp_all add: listable_def)
  with i before run show ?thesis
    by blast
qed

theorem C1_out_of_range_panics_witness:
  "macho_Open (example_Extern both_sections [bundle_A, bundle_bad, bundle_B]) ''kernelcache'' = Inr (example_File both_sections)
   \<and> getKextStartVMAddrs (example_File both_sections) = Inr [0x12340000]
   \<and> Section (example_File both_sections) ''__PRELINK_INFO'' ''__info'' = Some example_info
   \<and> Data example_info = Inr [0x3C, 0x64, 0x69, 0x63, 0x74, 0x2F, 0x3E, 0]
   \<and> plist_Decode (example_Extern both_sections [bundle_A, bundle_bad, bundle_B])
         (bytes_Trim_NUL [0x3C, 0x64, 0x69, 0x63, 0x74, 0x2F, 0x3E, 0])
       = Inr \<lparr> PrelinkInfoDictionary = [bundle_A, bundle_bad, bundle_B] \<rparr>
   \<and> bundle_bad \<in> set [bundle_A, bundle_bad, bundle_B]
   \<and> \<not> OSKernelResource bundle_bad
   \<and> length [0x12340000 :: u64] \<le> unat (ModuleIndex bundle_bad)
   \<and> (\<exists>out p. KextList (example_Extern both_sections [bundle_A, bundle_bad, bundle_B])
                   ''kernelcache'' = (Println_FOUND 3 # out, Panicked p))"
proof -
  have h1: "macho_Open (example_Extern both_sections [bundle_A, bundle_bad, bundle_B]) ''kernelcache'' = Inr (example_File both_sections)"
    by (simp add: example_Extern_def)
  have h2: "getKextStartVMAddrs (example_File both_sections) = Inr [0x12340000]"
    by (simp add: eval_defs)
  have h3: "Section (example_File both_sections) ''__PRELINK_INFO'' ''__info'' = Some example_info"
    by (simp add: example_File_def both_sections_def)
  have h4: "Data example_info = Inr [0x3C, 0x64, 0x69, 0x63, 0x74, 0x2F, 0x3E, 0]"
    by (simp add: example_info_def)
  have h5: "plist_Decode (example_Extern both_sections [bundle_A, bundle_bad, bundle_B])
              (bytes_Trim_NUL [0x3C, 0x64, 0x69, 0x63, 0x74, 0x2F, 0x3E, 0])
            = Inr \<lparr> PrelinkInfoDictionary = [bundle_A, bundle_bad, bundle_B] \<rparr>"
    by (simp add: example_Extern_def bytes_Trim_NUL_def)
  have h6: "bundle_bad
      \<in> set (PrelinkInfoDictionary \<lparr> PrelinkInfoDictionary = [bundle_A, bundle_bad, bundle_B] \<rparr>)"
    by simp
  have h7: "\<not> OSKernelResource bundle_bad"
    by (simp add: bundle_bad_def)
  have h8: "length [0x12340000 :: u64] \<le> unat (ModuleIndex bundle_bad)"
    by (simp add: bundle_bad_def)
  from C1_out_of_range_panics [OF h1 h2 h3 h4 h5 h6 h7 h8]
  obtain i where
    "KextList (example_Extern both_sections [bundle_A, bundle_bad, bundle_B]) ''kernelcache''
       = (Println_FOUND
            (length (PrelinkInfoDictionary
               \<lparr> PrelinkInfoDictionary = [bundle_A, bundle_bad, bundle_B] \<rparr>))
          # map (catalog_entry [0x12340000])
              (take i (PrelinkInfoDictionary
                 \<lparr> PrelinkInfoDictionary = [bundle_A, bundle_bad, bundle_B] \<rparr>)),
          Panicked (IndexOutOfRange
            (unat (ModuleIndex (PrelinkInfoDictionary
               \<lparr> PrelinkInfoDictionary = [bundle_A, bundle_bad, bundle_B] \<rparr> ! i)))
            (length [0x12340000 :: u64])))"
    by blast
  then have "\<exists>out p. KextList (example_Extern both_sections [bundle_A, bundle_bad, bundle_B])
                   ''kernelcache'' = (Println_FOUND 3 # out, Panicked p)"
    by simp
  with h1 h2 h3 h4 h5 h7 h8 show ?thesis
    by simp
qed

subsection \<open>The kmod\_start section is absent\<close>

text \<open>
  Claim C7. If the image has no section \<open>(__PRELINK_INFO, __kmod_start)\<close>, reading the
  start addresses fails with SectionMissing, and \<^verbatim>\<open>KextList\<close> returns that error
  having printed nothing. The witness is Scenario C.
\<close>

theorem C7_kmod_start_absent:
  assumes "macho_Open ext kernelPath = Inr m"
    and "Section m ''__PRELINK_INFO'' ''__kmod_start'' = None"
  shows "getKextStartVMAddrs m = Inl SectionMissing
       \<and> KextList ext kernelPath = ([], Returned (Some SectionMissing))"
  using assms by (simp add: KextList_def getKextStartVMAddrs_def SectionMissing_def)

theorem C7_kmod_start_absent_witness:
  "macho_Open (example_Extern only_info [bundle_A]) ''kernelcache'' = Inr (example_File only_info)
   \<and> Section (example_File only_info) ''__PRELINK_INFO'' ''__kmod_start'' = None
   \<and> KextList (example_Extern only_info [bundle_A]) ''kernelcache''
       = ([], Returned (Some SectionMissing))"
proof -
  have h1: "macho_Open (example_Extern only_info [bundle_A]) ''kernelcache''
              = Inr (example_File only_info)"
    by (simp add: example_Extern_def)
  have h2: "Section (example_File only_info) ''__PRELINK_INFO'' ''__kmod_start'' = None"
    by (simp add: example_File_def only_info_def)
  from C7_kmod_start_absent [OF h1 h2] h1 h2 show ?thesis by simp
qed

subsection \<open>The outcomes of a listing\<close>

text \<open>
  Claim C2 says that a listing either produces the complete catalog or fails with an
  error, and never completes successfully while producing no catalog, also when the
  section \<open>(__PRELINK_INFO, __info)\<close> is absent. On an image with the start addresses
  and no \<open>__info\<close> section, \<^verbatim>\<open>KextList\<close> returns \<^verbatim>\<open>nil\<close> and has printed
  nothing.
\<close>

theorem C2_info_absent_counterexample:
  "Section (example_File only_kmod_start) ''__PRELINK_INFO'' ''__info'' = None
   \<and> KextList (example_Extern only_kmod_start [bundle_A]) ''kernelcache''
       = ([], Returned None)"
  by (simp add: eval_defs)

text \<open>
  Claim C2, amended. Every run of \<^verbatim>\<open>KextList\<close> ends in one of four ways:
  it returns an error and has printed nothing; or the image opened, its start addresses
  were read, the \<open>__info\<close> section is absent, and it returns without error having printed
  nothing; or the bundles were decoded, all of them are listable, and it returns without
  error having printed the header and the complete catalog, one entry for each bundle in
  decode order; or the bundles were decoded, and it panics with index out of range at the
  first bundle that is not listable, having printed the header and the entries of the
  bundles before that one.
\<close>

theorem C2_KextList_outcomes:
  assumes "KextList ext kernelPath = (out, res)"
  shows "(\<exists>err. res = Returned (Some err) \<and> out = [])
       \<or> (\<exists>m kextStartAddrs.
             macho_Open ext kernelPath = Inr m
           \<and> getKextStartVMAddrs m = Inr kextStartAddrs
           \<and> Section m ''__PRELINK_INFO'' ''__info'' = None
           \<and> res = Returned None \<and> out = [])
       \<or> (\<exists>m kextStartAddrs infoSec data prelink.
             macho_Open ext kernelPath = Inr m
           \<and> getKextStartVMAddrs m = Inr kextStartAddrs
           \<and> Section m ''__PRELINK_INFO'' ''__info'' = Some infoSec
           \<and> Data infoSec = Inr data
           \<and> plist_Decode ext (bytes_Trim_NUL data) = Inr prelink
           \<and> ((\<forall>b\<in>set (PrelinkInfoDictionary prelink). listable kextStartAddrs b)
                \<and> res = Returned None
                \<and> out = Println_FOUND (length (PrelinkInfoDictionary prelink))
                          # map (catalog_entry kextStartAddrs) (PrelinkInfoDictionary prelink)
              \<or> (\<exists>i<length (PrelinkInfoDictionary prelink).
                    \<not> listable kextStartAddrs (PrelinkInfoDictionary prelink ! i)
                  \<and> (\<forall>j<i. listable kextStartAddrs (PrelinkInfoDictionary prelink ! j))
                  \<and> res = Panicked (IndexOutOfRange
                             (unat (ModuleIndex (PrelinkInfoDictionary prelink ! i)))
                             (length kextStartAddrs))
                  \<and> out = Println_FOUND (length (PrelinkInfoDictionary prelink))
                            # map (catalog_entry kextStartAddrs)
                                (take i (PrelinkInfoDictionary prelink)))))"
proof (cases "macho_Open ext kernelPath")
  case (Inl err)
  with assms show ?thesis by (auto simp: KextList_def)
next
  case m: (Inr m)
  show ?thesis
  proof (cases "getKextStartVMAddrs m")
    case (Inl err)
    with assms m show ?thesis by (auto simp: KextList_def)
  next
    case addrs: (Inr kextStartAddrs)
    show ?thesis
    proof (cases "Section m ''__PRELINK_INFO'' ''__info''")
      case None
      with assms m addrs show ?thesis by (auto simp: KextList_def)
    next
      case sec: (Some infoSec)
      show ?thesis
      proof (cases "Data infoSec")
        case (Inl err)
        with assms m addrs sec show ?thesis by (auto simp: KextList_def)
      next
        case data: (Inr data)
        show ?thesis
        proof (cases "plist_Decode ext (bytes_Trim_NUL data)")
          case (Inl err)
          with assms m addrs sec data show ?thesis by (auto simp: KextList_def)
        next
          case dec: (Inr prelink)
          let ?bs = "PrelinkInfoDictionary prelink"
          let ?P = "listable kextStartAddrs"
          let ?i = "length (takeWhile ?P ?bs)"
          note run = KextList_at_loop [OF m addrs sec data dec]
          have "(\<forall>b\<in>set ?bs. ?P b) \<and> res = Returned None
                \<and> out = Println_FOUND (length ?bs) # map (catalog_entry kextStartAddrs) ?bs
              \<or> (\<exists>i<length ?bs. \<not> ?P (?bs ! i) \<and> (\<forall>j<i. ?P (?bs ! j))
                  \<and> res = Panicked (IndexOutOfRange (unat (ModuleIndex (?bs ! i)))
                             (length kextStartAddrs))
                  \<and> out = Println_FOUND (length ?bs)
                            # map (catalog_entry kextStartAddrs) (take i ?bs))"
          proof (cases "dropWhile ?P ?bs")
            case Nil
            then have all: "\<forall>b\<in>set ?bs. ?P b"
              by simp
            from run assms Nil have "res = Returned None"
              and "out = Println_FOUND (length ?bs)
                     # map (catalog_entry kextStartAddrs) (takeWhile ?P ?bs)"
              by (simp_all del: dropWhile_eq_Nil_conv)
            moreover from all have "takeWhile ?P ?bs = ?bs"
              by (simp add: takeWhile_eq_all_conv)
            ultimately show ?thesis
              using all by simp
          next
            case (Cons y ys)
            from dropWhile_first [OF Cons]
            have i: "?i < length ?bs" and y: "?bs ! ?i = y" and ny: "\<not> ?P (?bs ! ?i)"
              by simp_all
            have before: "\<forall>j<?i. ?P (?bs ! j)"
              using length_takeWhile_gt [of _ ?P ?bs] by auto
            have "res = Panicked (IndexOutOfRange (unat (ModuleIndex (?bs ! ?i)))
                             (length kextStartAddrs))"
              and "out = Println_FOUND (length ?bs)
                            # map (catalog_entry kextStartAddrs) (take ?i ?bs)"
              using run assms Cons y takeWhile_eq_take_len [of ?P ?bs] by simp_all
            with i ny before show ?thesis by blast
          qed
          with m addrs sec data dec show ?thesis by blast
        qed
      qed
    qed
  qed
qed

theorem C2_KextList_outcomes_witness:
  "KextList (example_Extern both_sections [bundle_A]) ''kernelcache''
     = ([Println_FOUND 1, Printf_kext 0xFFFF000012340000 ''com.example.test'' ''1.0''],
        Returned None)
   \<and> (\<exists>m kextStartAddrs infoSec data prelink.
         macho_Open (example_Extern both_sections [bundle_A]) ''kernelcache'' = Inr m
       \<and> getKextStartVMAddrs m = Inr kextStartAddrs
       \<and> Section m ''__PRELINK_INFO'' ''__info'' = Some infoSec
       \<and> Data infoSec = Inr data
       \<and> plist_Decode (example_Extern both_sections [bundle_A]) (bytes_Trim_NUL data) = Inr prelink
       \<and> (\<forall>b\<in>set (PrelinkInfoDictionary prelink). listable kextStartAddrs b)
       \<and> [Println_FOUND 1, Printf_kext 0xFFFF000012340000 ''com.example.test'' ''1.0'']
           = Println_FOUND (length (PrelinkInfoDictionary prelink))
               # map (catalog_entry kextStartAddrs) (PrelinkInfoDictionary prelink))"
proof -
  have run: "KextList (example_Extern both_sections [bundle_A]) ''kernelcache''
     = ([Println_FOUND 1, Printf_kext 0xFFFF000012340000 ''com.example.test'' ''1.0''],
        Returned None)"
    by (simp add: eval_defs)
  from C2_KextList_outcomes [OF run] run show ?thesis
    by simp
qed

subsection \<open>The const section is absent\<close>

text \<open>
  Claim C9. If the image has no section \<open>(__DATA_CONST, __const)\<close>,
  \<^verbatim>\<open>GetSandboxOpts\<close> returns the empty sequence and no error.
\<close>

theorem C9_const_absent:
  assumes "Section m ''__DATA_CONST'' ''__const'' = None"
  shows "GetSandboxOpts m = Inr []"
  using assms by (simp add: GetSandboxOpts_def)

theorem C9_const_absent_witness:
  "Section (example_File both_sections) ''__DATA_CONST'' ''__const'' = None
   \<and> GetSandboxOpts (example_File both_sections) = Inr []"
proof -
  have h: "Section (example_File both_sections) ''__DATA_CONST'' ''__const'' = None"
    by (simp add: example_File_def both_sections_def)
  from C9_const_absent [OF h] h show ?thesis by simp
qed


subsection \<open>Little-endian decoding\<close>

lemma byte_disjoint64: "(ucast (b :: byte) :: u64) AND push_bit 8 y = 0"
  by (rule bit_eqI) (auto simp: bit_simps dest: bit_imp_le_length)

lemma byte_disjoint32: "(ucast (b :: byte) :: u32) AND push_bit 8 y = 0"
  by (rule bit_eqI) (auto simp: bit_simps dest: bit_imp_le_length)

lemma byte_or_shift64: "(ucast (b :: byte) :: u64) OR push_bit 8 y = ucast b + 256 * y"
proof -
  have "ucast b + push_bit 8 y = (ucast b :: u64) OR push_bit 8 y"
    by (rule disjunctive_add_eq_or) (rule byte_disjoint64)
  then show ?thesis by (simp add: push_bit_eq_mult mult.commute)
qed

lemma byte_or_shift32: "(ucast (b :: byte) :: u32) OR push_bit 8 y = ucast b + 256 * y"
proof -
  have "ucast b + push_bit 8 y = (ucast b :: u32) OR push_bit 8 y"
    by (rule disjunctive_add_eq_or) (rule byte_disjoint32)
  then show ?thesis by (simp add: push_bit_eq_mult mult.commute)
qed

lemma list8:
  assumes "length (b :: 'a list) = 8"
  obtains b0 b1 b2 b3 b4 b5 b6 b7 where "b = [b0, b1, b2, b3, b4, b5, b6, b7]"
  using assms by (auto simp: numeral_eq_Suc length_Suc_conv)

lemma list4:
  assumes "length (b :: 'a list) = 4"
  obtains b0 b1 b2 b3 where "b = [b0, b1, b2, b3]"
  using assms by (auto simp: numeral_eq_Suc length_Suc_conv)

lemma Uint64_le_nat:
  assumes "length b = 8"
  shows "LittleEndian_Uint64 b = word_of_nat (le_nat b)"
proof -
  from assms obtain b0 b1 b2 b3 b4 b5 b6 b7 where b: "b = [b0, b1, b2, b3, b4, b5, b6, b7]"
    by (rule list8)
  have "LittleEndian_Uint64 b
      = ucast b0 OR push_bit 8 (ucast b1 OR push_bit 8 (ucast b2 OR push_bit 8 (ucast b3
         OR push_bit 8 (ucast b4 OR push_bit 8 (ucast b5 OR push_bit 8 (ucast b6
         OR push_bit 8 (ucast b7)))))))"
    by (simp add: b LittleEndian_Uint64_def push_bit_or push_bit_push_bit or.assoc)
  also have "\<dots> = ucast b0 + 256 * (ucast b1 + 256 * (ucast b2 + 256 * (ucast b3
         + 256 * (ucast b4 + 256 * (ucast b5 + 256 * (ucast b6 + 256 * ucast b7))))))"
    unfolding byte_or_shift64 ..
  also have "\<dots> = word_of_nat (le_nat b)"
    by (simp add: b le_nat_def)
  finally show ?thesis .
qed

lemma Uint32_le_nat:
  assumes "length b = 4"
  shows "LittleEndian_Uint32 b = word_of_nat (le_nat b)"
proof -
  from assms obtain b0 b1 b2 b3 where b: "b = [b0, b1, b2, b3]"
    by (rule list4)
  have "LittleEndian_Uint32 b
      = ucast b0 OR push_bit 8 (ucast b1 OR push_bit 8 (ucast b2 OR push_bit 8 (ucast b3)))"
    by (simp add: b LittleEndian_Uint32_def push_bit_or push_bit_push_bit or.assoc)
  also have "\<dots> = ucast b0 + 256 * (ucast b1 + 256 * (ucast b2 + 256 * ucast b3))"
    unfolding byte_or_shift32 ..
  also have "\<dots> = word_of_nat (le_nat b)"
    by (simp add: b le_nat_def)
  finally show ?thesis .
qed

lemma binary_Read_uint64s_packed:
  assumes "8 * n \<le> length data"
  shows "binary_Read_uint64s data n = Inr (packed_words data n)"
proof (cases "n = 0")
  case True
  then show ?thesis by (simp add: binary_Read_uint64s_def packed_words_def)
next
  case False
  have "LittleEndian_Uint64 (take 8 (drop (8 * i) data))
          = word_of_nat (le_nat (take 8 (drop (8 * i) data)))" if "i < n" for i
  proof (rule Uint64_le_nat)
    from that assms have "8 * i + 8 \<le> length data" by simp
    then show "length (take 8 (drop (8 * i) data)) = 8" by simp
  qed
  then have "map (\<lambda>i. LittleEndian_Uint64 (take 8 (drop (8 * i) data))) [0..<n]
             = packed_words data n"
    by (simp add: packed_words_def)
  moreover from False assms have "data \<noteq> []" "\<not> length data < 8 * n"
    by auto
  ultimately show ?thesis
    using False by (simp add: binary_Read_uint64s_def)
qed

lemma d_value_plain:
  assumes "length raw = binary_Size_KmodInfoT"
  shows "d_value_KmodInfoT raw = KmodInfoRecord_plain raw"
proof -
  have len: "length raw = 196"
    using assms by (simp add: binary_Size_KmodInfoT_def)
  have u64: "LittleEndian_Uint64 (bytes_at raw off 8) = word_of_nat (le_nat (bytes_at raw off 8))"
    if "off + 8 \<le> 196" for off
    using that len by (intro Uint64_le_nat) (simp add: bytes_at_def)
  have u32: "LittleEndian_Uint32 (bytes_at raw off 4) = word_of_nat (le_nat (bytes_at raw off 4))"
    if "off + 4 \<le> 196" for off
    using that len by (intro Uint32_le_nat) (simp add: bytes_at_def)
  have first: "take 8 raw = bytes_at raw 0 8"
    by (simp add: bytes_at_def)
  show ?thesis
    by (simp add: d_value_KmodInfoT_def KmodInfoRecord_plain_def d_uint64_def d_uint32_def
        d_bytes_def first u64 u32 bytes_at_def [symmetric])
qed

lemma length_infoBytes_after: "length (infoBytes_after written) = binary_Size_KmodInfoT"
  by (simp add: infoBytes_after_def)

lemma binary_Read_KmodInfoT_buffer:
  "binary_Read_KmodInfoT (infoBytes_after written)
     = Inr (KmodInfoRecord_plain (infoBytes_after written))"
proof -
  have "infoBytes_after written \<noteq> []"
    using length_infoBytes_after [of written] by (auto simp: binary_Size_KmodInfoT_def)
  then show ?thesis
    by (simp add: binary_Read_KmodInfoT_def length_infoBytes_after d_value_plain)
qed

subsection \<open>Packed pointer arrays\<close>

text \<open>
  Claim C10. Take a section whose \<^verbatim>\<open>Data()\<close> succeeds with at least
  \<open>8 * floor(Size / 8)\<close> bytes (as it does when it returns \<open>Size\<close> bytes). Whichever of
  the three readers the section belongs to, the pointer array it goes on with is the packed
  array of exactly \<open>floor(Size / 8)\<close> little-endian words at the front of the data:
  \<^verbatim>\<open>getKextStartVMAddrs\<close> returns it, \<^verbatim>\<open>getKextInfos\<close> and
  \<^verbatim>\<open>GetSandboxOpts\<close> run their loops over it. Bytes after the last whole word are
  ignored and cause no error. The witness is a section of 9 bytes.
\<close>

theorem C10_packed_pointer_arrays:
  assumes "Data sec = Inr data"
    and "8 * (unat (macho_Section.Size sec) div 8) \<le> length data"
  shows "length (packed_words data (unat (macho_Section.Size sec) div 8))
           = unat (macho_Section.Size sec) div 8
       \<and> (Section m ''__PRELINK_INFO'' ''__kmod_start'' = Some sec \<longrightarrow>
            getKextStartVMAddrs m
              = Inr (packed_words data (unat (macho_Section.Size sec) div 8)))
       \<and> (Section m ''__PRELINK_INFO'' ''__kmod_info'' = Some sec \<longrightarrow>
            getKextInfos ext m
              = getKextInfos_loop ext m
                  (packed_words data (unat (macho_Section.Size sec) div 8)) [])
       \<and> (Section m ''__DATA_CONST'' ''__const'' = Some sec \<longrightarrow>
            GetSandboxOpts m
              = Inr (GetSandboxOpts_loop m
                  (packed_words data (unat (macho_Section.Size sec) div 8)) False []))"
proof -
  have n: "unat (macho_Section.Size sec div 8) = unat (macho_Section.Size sec) div 8"
    by (simp add: unat_div)
  have read: "binary_Read_uint64s data (unat (macho_Section.Size sec div 8))
                = Inr (packed_words data (unat (macho_Section.Size sec) div 8))"
    using binary_Read_uint64s_packed [OF assms(2)] by (simp add: n)
  show ?thesis
    using assms(1) read
    by (simp add: packed_words_def getKextStartVMAddrs_def getKextInfos_def GetSandboxOpts_def)
qed

theorem C10_packed_pointer_arrays_witness:
  "Data example_odd = Inr [0x00, 0x00, 0x34, 0x12, 0, 0, 0, 0, 0xAA]
   \<and> unat (macho_Section.Size example_odd) = 9
   \<and> packed_words [0x00, 0x00, 0x34, 0x12, 0, 0, 0, 0, 0xAA] (9 div 8) = [0x12340000]
   \<and> Section (example_File odd_sections) ''__PRELINK_INFO'' ''__kmod_start'' = Some example_odd
   \<and> Section (example_File odd_sections) ''__PRELINK_INFO'' ''__kmod_info'' = Some example_odd
   \<and> Section (example_File odd_sections) ''__DATA_CONST'' ''__const'' = Some example_odd
   \<and> getKextStartVMAddrs (example_File odd_sections) = Inr [0x12340000]
   \<and> getKextInfos (example_Extern odd_sections []) (example_File odd_sections)
       = getKextInfos_loop (example_Extern odd_sections []) (example_File odd_sections)
           [0x12340000] []
   \<and> GetSandboxOpts (example_File odd_sections)
       = Inr (GetSandboxOpts_loop (example_File odd_sections) [0x12340000] False [])"
proof -
  let ?data = "[0x00, 0x00, 0x34, 0x12, 0, 0, 0, 0, 0xAA] :: byte list"
  have h1: "Data example_odd = Inr ?data"
    by (simp add: example_odd_def)
  have n: "unat (macho_Section.Size example_odd) = 9"
    by (simp add: example_odd_def)
  have h2: "8 * (unat (macho_Section.Size example_odd) div 8) \<le> length ?data"
    by (simp add: n)
  have words: "packed_words ?data (9 div 8) = [0x12340000]"
    by (simp add: packed_words_def le_nat_def)
  have s1: "Section (example_File odd_sections) ''__PRELINK_INFO'' ''__kmod_start'' = Some example_odd"
    and s2: "Section (example_File odd_sections) ''__PRELINK_INFO'' ''__kmod_info'' = Some example_odd"
    and s3: "Section (example_File odd_sections) ''__DATA_CONST'' ''__const'' = Some example_odd"
    by (simp_all add: example_File_def odd_sections_def)
  from C10_packed_pointer_arrays [OF h1 h2, of "example_File odd_sections"
      "example_Extern odd_sections []"] s1 s2 s3
  have "getKextStartVMAddrs (example_File odd_sections) = Inr [0x12340000]"
    and "getKextInfos (example_Extern odd_sections []) (example_File odd_sections)
       = getKextInfos_loop (example_Extern odd_sections []) (example_File odd_sections)
           [0x12340000] []"
    and "GetSandboxOpts (example_File odd_sections)
       = Inr (GetSandboxOpts_loop (example_File odd_sections) [0x12340000] False [])"
    by (simp_all only: n words simp_thms)
  with h1 n words s1 s2 s3 show ?thesis
    by (intro conjI)
qed

subsection \<open>The kmod\_info records\<close>

lemma getKextInfos_loop_records:
  assumes "getKextInfos_loop ext m ptrs acc = Inr infos" and "info \<in> set infos"
  shows "info \<in> set acc
       \<or> (\<exists>ptr\<in>set ptrs. \<exists>off written.
             GetOffset m (ptr OR tagPtrMask) = Inr off
           \<and> ReadAt m binary_Size_KmodInfoT off = Inr written
           \<and> info = (KmodInfoRecord_plain (infoBytes_after written))
                \<lparr> StartAddr := Rebase_Target ext
                     (StartAddr (KmodInfoRecord_plain (infoBytes_after written)))
                     + GetBaseAddress m,
                  StopAddr := Rebase_Target ext
                     (StopAddr (KmodInfoRecord_plain (infoBytes_after written)))
                     + GetBaseAddress m \<rparr>)"
  using assms
proof (induction ptrs arbitrary: acc)
  case Nil
  then show ?case by simp
next
  case (Cons ptr ptrs)
  from Cons.prems(1) obtain off where off: "GetOffset m (ptr OR tagPtrMask) = Inr off"
    by (cases "GetOffset m (ptr OR tagPtrMask)") simp_all
  from Cons.prems(1) off obtain written
    where written: "ReadAt m binary_Size_KmodInfoT off = Inr written"
    by (cases "ReadAt m binary_Size_KmodInfoT off") simp_all
  let ?plain = "KmodInfoRecord_plain (infoBytes_after written)"
  let ?info = "?plain \<lparr> StartAddr := Rebase_Target ext (StartAddr ?plain) + GetBaseAddress m,
                         StopAddr := Rebase_Target ext (StopAddr ?plain) + GetBaseAddress m \<rparr>"
  from Cons.prems(1) off written
  have "getKextInfos_loop ext m ptrs (acc @ [?info]) = Inr infos"
    by (simp add: binary_Read_KmodInfoT_buffer Let_def)
  from Cons.IH [OF this Cons.prems(2)] off written show ?case
    by auto
qed

lemma getKextInfos_loop_length:
  "getKextInfos_loop ext m ptrs acc = Inr infos \<Longrightarrow> length infos = length acc + length ptrs"
proof (induction ptrs arbitrary: acc)
  case Nil
  then show ?case by simp
next
  case (Cons ptr ptrs)
  then show ?case
    by (fastforce split: sum.splits simp: Let_def)
qed

text \<open>
  Claim C6. Every record \<^verbatim>\<open>getKextInfos\<close> returns was read for some pointer of the
  array: its address with the tag mask translated to an offset, and the record buffer read
  there. \<open>StartAddr\<close> and \<open>StopAddr\<close> of the record are the rebase target of the plain
  little-endian value in the buffer plus the image base address; every other field is the
  plain value the layout gives for the buffer.
\<close>

theorem C6_fixups_start_stop_only:
  assumes "getKextInfos ext m = Inr infos" and "info \<in> set infos"
  shows "\<exists>ptr off written.
           GetOffset m (ptr OR tagPtrMask) = Inr off
         \<and> ReadAt m binary_Size_KmodInfoT off = Inr written
         \<and> (let plain = KmodInfoRecord_plain (infoBytes_after written) in
              StartAddr info = Rebase_Target ext (StartAddr plain) + GetBaseAddress m
            \<and> StopAddr info = Rebase_Target ext (StopAddr plain) + GetBaseAddress m
            \<and> NextAddr info = NextAddr plain
            \<and> InfoVersion info = InfoVersion plain
            \<and> KmodInfoT.ID info = KmodInfoT.ID plain
            \<and> Name info = Name plain
            \<and> KmodInfoT.Version info = KmodInfoT.Version plain
            \<and> ReferenceCount info = ReferenceCount plain
            \<and> ReferenceListAddr info = ReferenceListAddr plain
            \<and> Address info = Address plain
            \<and> KmodInfoT.Size info = KmodInfoT.Size plain
            \<and> HeaderSize info = HeaderSize plain)"
proof -
  from assms(1) obtain ptrs where "getKextInfos_loop ext m ptrs [] = Inr infos"
    by (auto simp: getKextInfos_def split: option.splits sum.splits)
  from getKextInfos_loop_records [OF this assms(2)]
  obtain ptr off written where "GetOffset m (ptr OR tagPtrMask) = Inr off"
    and "ReadAt m binary_Size_KmodInfoT off = Inr written"
    and "info = (KmodInfoRecord_plain (infoBytes_after written))
                \<lparr> StartAddr := Rebase_Target ext
                     (StartAddr (KmodInfoRecord_plain (infoBytes_after written)))
                     + GetBaseAddress m,
                  StopAddr := Rebase_Target ext
                     (StopAddr (KmodInfoRecord_plain (infoBytes_after written)))
                     + GetBaseAddress m \<rparr>"
    by auto
  then show ?thesis
    by (intro exI [of _ ptr] exI [of _ off] exI [of _ written]) (simp add: Let_def)
qed

theorem C6_fixups_start_stop_only_witness:
  "getKextInfos (example_Extern both_sections []) kmod_info_File = Inr [example_info_record]
   \<and> example_info_record \<in> set [example_info_record]
   \<and> (\<exists>ptr off written.
           GetOffset kmod_info_File (ptr OR tagPtrMask) = Inr off
         \<and> ReadAt kmod_info_File binary_Size_KmodInfoT off = Inr written
         \<and> (let plain = KmodInfoRecord_plain (infoBytes_after written) in
              StartAddr example_info_record
                = Rebase_Target (example_Extern both_sections []) (StartAddr plain)
                  + GetBaseAddress kmod_info_File
            \<and> StopAddr example_info_record
                = Rebase_Target (example_Extern both_sections []) (StopAddr plain)
                  + GetBaseAddress kmod_info_File
            \<and> NextAddr example_info_record = NextAddr plain
            \<and> InfoVersion example_info_record = InfoVersion plain
            \<and> KmodInfoT.ID example_info_record = KmodInfoT.ID plain
            \<and> Name example_info_record = Name plain
            \<and> KmodInfoT.Version example_info_record = KmodInfoT.Version plain
            \<and> ReferenceCount example_info_record = ReferenceCount plain
            \<and> ReferenceListAddr example_info_record = ReferenceListAddr plain
            \<and> Address example_info_record = Address plain
            \<and> KmodInfoT.Size example_info_record = KmodInfoT.Size plain
            \<and> HeaderSize example_info_record = HeaderSize plain))"
proof -
  have run: "getKextInfos (example_Extern both_sections []) kmod_info_File
               = Inr [example_info_record]"
    by code_simp
  have mem: "example_info_record \<in> set [example_info_record]"
    by simp
  from C6_fixups_start_stop_only [OF run mem] run mem show ?thesis
    by (intro conjI)
qed

subsection \<open>The sandbox-operation scan\<close>

lemma loop_found:
  "GetSandboxOpts_loop m ptrs True bcOpts = bcOpts @ collect_run m ptrs"
  by (induction ptrs arbitrary: bcOpts)
     (simp_all add: tagPtrMask_def getTag_def Let_def split: sum.splits)

lemma loop_not_found:
  "GetSandboxOpts_loop m ptrs False bcOpts = bcOpts @ scan_for_default m ptrs"
  by (induction ptrs arbitrary: bcOpts)
     (simp_all add: tagPtrMask_def getTag_def Let_def loop_found split: sum.splits)

lemma scan_for_default_none:
  assumes "\<forall>p\<in>set ptrs. p \<noteq> 0 \<longrightarrow> GetCString m (p OR 0xFFFF000000000000) \<noteq> Inr ''default''"
  shows "scan_for_default m ptrs = []"
  using assms by (induction ptrs) (auto split: sum.splits)

text \<open>
  Claim C5. When the section \<open>(__DATA_CONST, __const)\<close> is present and its data holds
  the packed pointer array, \<^verbatim>\<open>GetSandboxOpts\<close> returns the two-phase scan of that
  array: in order, zero pointers skipped; before \<^verbatim>\<open>"default"\<close> is dereferenced a
  dereference failure is passed over; from \<^verbatim>\<open>"default"\<close> on each dereferenced string
  is collected and the walk goes on exactly when the tag is \<open>0x17\<close>, ending on another
  tag or a dereference failure. The result is empty when no non-zero pointer dereferences
  to \<^verbatim>\<open>"default"\<close>. The witness is Scenario D, which yields default, read, write.
\<close>

theorem C5_sandbox_scan:
  assumes "Section m ''__DATA_CONST'' ''__const'' = Some dconst"
    and "Data dconst = Inr data"
    and "8 * (unat (macho_Section.Size dconst) div 8) \<le> length data"
  shows "GetSandboxOpts m
           = Inr (scan_for_default m (packed_words data (unat (macho_Section.Size dconst) div 8)))
       \<and> ((\<forall>p\<in>set (packed_words data (unat (macho_Section.Size dconst) div 8)).
              p \<noteq> 0 \<longrightarrow> GetCString m (p OR 0xFFFF000000000000) \<noteq> Inr ''default'')
            \<longrightarrow> GetSandboxOpts m = Inr [])"
proof -
  have "binary_Read_uint64s data (unat (macho_Section.Size dconst div 8))
          = Inr (packed_words data (unat (macho_Section.Size dconst) div 8))"
    using binary_Read_uint64s_packed [OF assms(3)] by (simp add: unat_div)
  with assms(1,2) have "GetSandboxOpts m
           = Inr (scan_for_default m (packed_words data (unat (macho_Section.Size dconst) div 8)))"
    by (simp add: GetSandboxOpts_def loop_not_found)
  then show ?thesis
    by (simp add: scan_for_default_none)
qed

theorem C5_sandbox_scan_witness:
  "Section scenarioD_File ''__DATA_CONST'' ''__const'' = Some scenarioD_const
   \<and> Data scenarioD_const = Inr [0x00, 0x10, 0, 0, 0, 0, 0x17, 0,
                   0x04, 0x10, 0, 0, 0, 0, 0x17, 0,
                   0x08, 0x10, 0, 0, 0, 0, 0x17, 0,
                   0x10, 0x10, 0, 0, 0, 0, 0x17, 0,
                   0x15, 0x10, 0, 0, 0, 0, 0x03, 0]
   \<and> packed_words [0x00, 0x10, 0, 0, 0, 0, 0x17, 0,
                   0x04, 0x10, 0, 0, 0, 0, 0x17, 0,
                   0x08, 0x10, 0, 0, 0, 0, 0x17, 0,
                   0x10, 0x10, 0, 0, 0, 0, 0x17, 0,
                   0x15, 0x10, 0, 0, 0, 0, 0x03, 0] 5
       = [0x0017000000001000, 0x0017000000001004, 0x0017000000001008,
          0x0017000000001010, 0x0003000000001015]
   \<and> GetSandboxOpts scenarioD_File = Inr [''default'', ''read'', ''write'']"
proof -
  let ?data = "[0x00, 0x10, 0, 0, 0, 0, 0x17, 0,
                   0x04, 0x10, 0, 0, 0, 0, 0x17, 0,
                   0x08, 0x10, 0, 0, 0, 0, 0x17, 0,
                   0x10, 0x10, 0, 0, 0, 0, 0x17, 0,
                   0x15, 0x10, 0, 0, 0, 0, 0x03, 0] :: byte list"
  have h1: "Section scenarioD_File ''__DATA_CONST'' ''__const'' = Some scenarioD_const"
    by (simp add: scenarioD_File_def)
  have h2: "Data scenarioD_const = Inr ?data"
    by (simp add: scenarioD_const_def)
  have h3: "8 * (unat (macho_Section.Size scenarioD_const) div 8) \<le> length ?data"
    by (simp add: scenarioD_const_def)
  have n: "unat (macho_Section.Size scenarioD_const) div 8 = 5"
    by (simp add: scenarioD_const_def)
  have words: "packed_words ?data 5
       = [0x0017000000001000, 0x0017000000001004, 0x0017000000001008,
          0x0017000000001010, 0x0003000000001015]"
    by (simp add: packed_words_def le_nat_def upt_rec)
  have scan: "scan_for_default scenarioD_File
       [0x0017000000001000, 0x0017000000001004, 0x0017000000001008,
        0x0017000000001010, 0x0003000000001015] = [''default'', ''read'', ''write'']"
    by (simp add: scenarioD_File_def drop_bit_eq_div)
  from C5_sandbox_scan [OF h1 h2 h3]
  have "GetSandboxOpts scenarioD_File = Inr [''default'', ''read'', ''write'']"
    by (simp only: n words scan)
  with h1 h2 words show ?thesis
    by simp
qed

end
